theory Spec2Isabelle
  imports Complex_Main "HOL-Library.Multiset" "HOL-Library.AList"
begin

section \<open>Numbers and dates\<close>

text \<open>
  The TypeScript type \<^verbatim>\<open>number\<close> is modelled by the real numbers: the finite values of
  the source, with exact arithmetic. A date string is modelled by its time value, the
  milliseconds that \<^verbatim>\<open>new Date(s).getTime()\<close> reads from it.
\<close>

type_synonym number = real

text \<open>\<^verbatim>\<open>Math.round\<close>: the nearest integer, a tie going to the larger one.\<close>

definition Math_round :: "number \<Rightarrow> number" where
  "Math_round x = of_int \<lfloor>x + 1 / 2\<rfloor>"

definition Math_floor :: "number \<Rightarrow> number" where
  "Math_floor x = of_int \<lfloor>x\<rfloor>"

section \<open>src/lib/github.ts\<close>

subsection \<open>Responses and errors\<close>

text \<open>
  A \<^verbatim>\<open>Response\<close> is its status code and the value that \<^verbatim>\<open>response.json()\<close> parses
  from its body (read by the source only when the response is ok). A thrown \<^verbatim>\<open>Error\<close>
  is a value of \<open>error\<close>: the constructors are the places that throw, with the status
  code that the message carries.
\<close>

datatype 'a response = Response (status: nat) (json: 'a)

definition ok :: "'a response \<Rightarrow> bool" where
  "ok response = (200 \<le> status response \<and> status response \<le> 299)"

datatype error =
    NetworkError
  | MaxRetriesReached
  | RepositoryNotFound
  | AccessDenied
  | FailedToFetch string nat
  | FailedToFetchRepository error

text \<open>What a call of \<^verbatim>\<open>fetchWithRetry\<close> gives its caller: the error thrown or the response.\<close>

type_synonym 'a fetched = "error + 'a response"

subsection \<open>fetchWithRetry\<close>

text \<open>
  The network is the outcome of each call of \<^verbatim>\<open>fetch\<close>, by attempt number \<open>i\<close>:
  \<open>Inl\<close> when the promise rejects, \<open>Inr\<close> the response otherwise. The function returns
  the trace of what it did (requests and waits, in order) beside its result. The retry
  budget is a natural number.
\<close>

datatype io = Request | Sleep number

definition backoff :: "nat \<Rightarrow> number" where
  "backoff i = min (1000 * 2 ^ i) 8000"

definition retryable :: "nat \<Rightarrow> bool" where
  "retryable s = (s = 403 \<or> s = 502 \<or> s = 503 \<or> s = 504 \<or> s \<ge> 500)"

function fetchWithRetry_from :: "(nat \<Rightarrow> error + 'a response) \<Rightarrow> nat \<Rightarrow> nat \<Rightarrow> io list \<times> 'a fetched" where
  "fetchWithRetry_from net retries i =
     (if i \<le> retries then
        (case net i of
           Inr response \<Rightarrow>
             if retryable (status response) \<and> i < retries then
               (let delay = backoff i;
                    (trace, result) = fetchWithRetry_from net retries (i + 1)
                in (Request # Sleep delay # trace, result))
             else ([Request], Inr response)
         | Inl err \<Rightarrow>
             if i = retries then ([Request], Inl err)
             else
               (let delay = backoff i;
                    (trace, result) = fetchWithRetry_from net retries (i + 1)
                in (Request # Sleep delay # trace, result)))
      else ([], Inl MaxRetriesReached))"
  by pat_completeness auto
termination
  by (relation "measure (\<lambda>(net, retries, i). Suc retries - i)") auto

declare fetchWithRetry_from.simps [simp del]

definition fetchWithRetry :: "(nat \<Rightarrow> error + 'a response) \<Rightarrow> nat \<Rightarrow> io list \<times> 'a fetched" where
  "fetchWithRetry net retries = fetchWithRetry_from net retries 0"

subsection \<open>The payloads\<close>

text \<open>Of each interface, the fields that the code reads.\<close>

record GitHubRepository =
  repo_name :: string
  full_name :: string
  repo_description :: "string option"
  stargazers_count :: number
  forks_count :: number
  open_issues_count :: number
  subscribers_count :: number
  updated_at :: number
  license_name :: "string option"

datatype issue_state = IssueOpen | IssueClosed

text \<open>\<open>pull_request\<close>: the item of the issues endpoint carries the pull-request marker.\<close>

record GitHubIssue =
  issue_number :: nat
  state :: issue_state
  created_at :: number
  comments :: number
  pull_request :: bool

record GitHubCommit =
  commit_author_email :: string
  commit_author_date :: number
  author_login :: "string option"

record GitHubIssueComment =
  user_type :: string
  comment_created_at :: number

record GitHubReleaseAsset =
  asset_name :: string
  asset_size :: number
  download_count :: number

record GitHubRelease =
  tag_name :: string
  release_name :: "string option"
  published_at :: number
  prerelease :: bool
  draft :: bool
  assets :: "GitHubReleaseAsset list"

subsection \<open>fetchRepository\<close>

text \<open>
  Every fetcher below takes the outcome of its \<^verbatim>\<open>fetchWithRetry\<close> calls as an argument.
\<close>

definition fetchRepository :: "GitHubRepository fetched \<Rightarrow> error + GitHubRepository" where
  "fetchRepository fetched =
     (case fetched of
        Inl err \<Rightarrow> Inl err
      | Inr response \<Rightarrow>
          if \<not> ok response then
            (if status response = 404 then Inl RepositoryNotFound
             else if status response = 403 then Inl AccessDenied
             else Inl (FailedToFetch ''repository'' (status response)))
          else Inr (json response))"

subsection \<open>The paginated fetchers\<close>

text \<open>
  The server's answers to the requests for page 1, 2, ... are the list \<open>pages\<close>: the
  resource is finite, and a request past the last page held is answered with status 200
  and the empty array, on which all three loops stop. \<open>onProgress\<close> is the callback of
  the source; the values it is called with are returned, in order, beside the result, and
  they stay delivered when the fetcher throws afterwards.
\<close>

fun fetchIssues_loop ::
  "nat \<Rightarrow> (nat \<Rightarrow> nat \<Rightarrow> 'e) \<Rightarrow> GitHubIssue list fetched list \<Rightarrow> GitHubIssue list
     \<Rightarrow> 'e list \<times> (error + GitHubIssue list)" where
  "fetchIssues_loop perPage onProgress [] issues = ([], Inr issues)"
| "fetchIssues_loop perPage onProgress (fetched # rest) issues =
     (if length issues < 500 then
        (case fetched of
           Inl err \<Rightarrow> ([], Inl err)
         | Inr response \<Rightarrow>
             if \<not> ok response then
               (if status response = 404 then ([], Inr issues)
                else ([], Inl (FailedToFetch ''issues'' (status response))))
             else
               (let data = json response
                in if length data = 0 then ([], Inr issues)
                   else
                     (let actualIssues = filter (\<lambda>issue. \<not> pull_request issue) data;
                          issues = issues @ actualIssues;
                          event = onProgress (length issues) 500
                      in if length data < perPage then ([event], Inr issues)
                         else (let (events, result) = fetchIssues_loop perPage onProgress rest issues
                               in (event # events, result)))))
      else ([], Inr issues))"

definition fetchIssues ::
  "nat \<Rightarrow> (nat \<Rightarrow> nat \<Rightarrow> 'e) \<Rightarrow> GitHubIssue list fetched list \<Rightarrow> 'e list \<times> (error + GitHubIssue list)" where
  "fetchIssues perPage onProgress pages = fetchIssues_loop perPage onProgress pages []"

fun fetchCommits_loop ::
  "(nat \<Rightarrow> nat \<Rightarrow> 'e) \<Rightarrow> GitHubCommit list fetched list \<Rightarrow> GitHubCommit list
     \<Rightarrow> 'e list \<times> (error + GitHubCommit list)" where
  "fetchCommits_loop onProgress [] commits = ([], Inr commits)"
| "fetchCommits_loop onProgress (fetched # rest) commits =
     (let perPage = 100
      in if length commits < 1000 then
        (case fetched of
           Inl err \<Rightarrow> ([], Inl err)
         | Inr response \<Rightarrow>
             if \<not> ok response then
               (if status response = 504 \<or> status response \<ge> 500 then ([], Inr commits)
                else ([], Inl (FailedToFetch ''commits'' (status response))))
             else
               (let data = json response
                in if length data = 0 then ([], Inr commits)
                   else
                     (let commits = commits @ data;
                          event = onProgress (length commits) 1000
                      in if length data < perPage then ([event], Inr commits)
                         else (let (events, result) = fetchCommits_loop onProgress rest commits
                               in (event # events, result)))))
      else ([], Inr commits))"

definition fetchCommits ::
  "(nat \<Rightarrow> nat \<Rightarrow> 'e) \<Rightarrow> GitHubCommit list fetched list \<Rightarrow> 'e list \<times> (error + GitHubCommit list)" where
  "fetchCommits onProgress pages = fetchCommits_loop onProgress pages []"

fun fetchReleases_loop ::
  "nat \<Rightarrow> (nat \<Rightarrow> nat \<Rightarrow> 'e) \<Rightarrow> GitHubRelease list fetched list \<Rightarrow> GitHubRelease list
     \<Rightarrow> 'e list \<times> (error + GitHubRelease list)" where
  "fetchReleases_loop limit onProgress [] rels = ([], Inr rels)"
| "fetchReleases_loop limit onProgress (fetched # rest) rels =
     (let perPage = 100
      in if length rels < limit then
        (case fetched of
           Inl err \<Rightarrow> ([], Inl err)
         | Inr response \<Rightarrow>
             if \<not> ok response then
               (if status response = 504 \<or> status response \<ge> 500 then ([], Inr rels)
                else ([], Inl (FailedToFetch ''releases'' (status response))))
             else
               (let data = json response
                in if length data = 0 then ([], Inr rels)
                   else
                     (let validReleases = filter (\<lambda>release. \<not> draft release) data;
                          rels = rels @ validReleases;
                          event = onProgress (length rels) limit
                      in if length data < perPage then ([event], Inr rels)
                         else (let (events, result) = fetchReleases_loop limit onProgress rest rels
                               in (event # events, result)))))
      else ([], Inr rels))"

definition fetchReleases ::
  "nat \<Rightarrow> (nat \<Rightarrow> nat \<Rightarrow> 'e) \<Rightarrow> GitHubRelease list fetched list \<Rightarrow> 'e list \<times> (error + GitHubRelease list)" where
  "fetchReleases limit onProgress pages = fetchReleases_loop limit onProgress pages []"

subsection \<open>The single-request fetchers\<close>

text \<open>
  \<^verbatim>\<open>fetchIssueComments\<close> never throws: a server error gives the empty list, and the error
  thrown for any other status that is not ok is caught by the function itself and gives
  the empty list as well, as a rejected request does.
\<close>

definition fetchIssueComments :: "GitHubIssueComment list fetched \<Rightarrow> GitHubIssueComment list" where
  "fetchIssueComments fetched =
     (case fetched of
        Inl err \<Rightarrow> []
      | Inr response \<Rightarrow> if \<not> ok response then [] else json response)"

definition fetchLanguages :: "(string \<times> number) list fetched \<Rightarrow> error + (string \<times> number) list" where
  "fetchLanguages fetched =
     (case fetched of
        Inl err \<Rightarrow> Inl err
      | Inr response \<Rightarrow>
          if \<not> ok response then Inl (FailedToFetch ''languages'' (status response))
          else Inr (json response))"

text \<open>The body of a search response is its \<^verbatim>\<open>total_count\<close>.\<close>

definition fetchOpenPullRequestsCount :: "number fetched \<Rightarrow> error + number" where
  "fetchOpenPullRequestsCount fetched =
     (case fetched of
        Inl err \<Rightarrow> Inl err
      | Inr response \<Rightarrow>
          if \<not> ok response then Inl (FailedToFetch ''PRs'' (status response))
          else Inr (json response))"

record PRStats =
  merged :: number
  closedUnmerged :: number
  mergeRate :: number

definition fetchPRStats :: "number fetched \<Rightarrow> number fetched \<Rightarrow> PRStats" where
  "fetchPRStats mergedFetched closedFetched =
     (case mergedFetched of
        Inl err \<Rightarrow> \<lparr> merged = 0, closedUnmerged = 0, mergeRate = 0 \<rparr>
      | Inr mergedResponse \<Rightarrow>
          (case closedFetched of
             Inl err \<Rightarrow> \<lparr> merged = 0, closedUnmerged = 0, mergeRate = 0 \<rparr>
           | Inr closedResponse \<Rightarrow>
               (let mergedData = (if ok mergedResponse then json mergedResponse else 0);
                    closedData = (if ok closedResponse then json closedResponse else 0);
                    total = mergedData + closedData;
                    rate = (if total > 0 then (mergedData / total) * 100 else 0)
                in \<lparr> merged = mergedData, closedUnmerged = closedData, mergeRate = rate \<rparr>)))"

record StarGrowth =
  sg_starsPerMonth :: number
  recentGrowth :: number

text \<open>The body is the list of the \<^verbatim>\<open>starred_at\<close> times; \<open>now\<close> is \<^verbatim>\<open>Date.now()\<close>.\<close>

definition fetchStarGrowth :: "number \<Rightarrow> number list fetched \<Rightarrow> StarGrowth" where
  "fetchStarGrowth now fetched =
     (case fetched of
        Inl err \<Rightarrow> \<lparr> sg_starsPerMonth = 0, recentGrowth = 0 \<rparr>
      | Inr response \<Rightarrow>
          if \<not> ok response then \<lparr> sg_starsPerMonth = 0, recentGrowth = 0 \<rparr>
          else
            (let stargazers = json response
             in if length stargazers = 0 then \<lparr> sg_starsPerMonth = 0, recentGrowth = 0 \<rparr>
                else
                  (let thirtyDaysAgo = now - 30 * 24 * 60 * 60 * 1000;
                       recentStars = of_nat (length (filter (\<lambda>starred_at. starred_at > thirtyDaysAgo) stargazers))
                   in \<lparr> sg_starsPerMonth = recentStars, recentGrowth = recentStars \<rparr>)))"

record CodeFrequency =
  additions :: number
  deletions :: number
  totalChanges :: number

text \<open>
  The polling loop of \<^verbatim>\<open>fetchCodeFrequency\<close>: \<open>polls attempts\<close> is the outcome of the
  request made when the counter stands at \<open>attempts\<close>. The result is the response the
  loop ends with.
\<close>

function codeFrequency_poll :: "(nat \<Rightarrow> 'a fetched) \<Rightarrow> nat \<Rightarrow> error + 'a response option" where
  "codeFrequency_poll polls attempts =
     (let maxAttempts = 3
      in if attempts < maxAttempts then
           (case polls attempts of
              Inl err \<Rightarrow> Inl err
            | Inr response \<Rightarrow>
                if status response = 202 \<and> attempts + 1 < maxAttempts
                then codeFrequency_poll polls (attempts + 1)
                else Inr (Some response))
         else Inr None)"
  by pat_completeness auto
termination
  by (relation "measure (\<lambda>(polls, attempts). 3 - attempts)") auto

declare codeFrequency_poll.simps [simp del]

definition fetchCodeFrequency :: "(nat \<Rightarrow> (number \<times> number \<times> number) list fetched) \<Rightarrow> CodeFrequency" where
  "fetchCodeFrequency polls =
     (case codeFrequency_poll polls 0 of
        Inl err \<Rightarrow> \<lparr> additions = 0, deletions = 0, totalChanges = 0 \<rparr>
      | Inr None \<Rightarrow> \<lparr> additions = 0, deletions = 0, totalChanges = 0 \<rparr>
      | Inr (Some response) \<Rightarrow>
          if \<not> ok response \<or> status response = 202
          then \<lparr> additions = 0, deletions = 0, totalChanges = 0 \<rparr>
          else
            (let data = json response
             in if length data = 0 then \<lparr> additions = 0, deletions = 0, totalChanges = 0 \<rparr>
                else
                  (let recentWeeks = drop (length data - 12) data;
                       adds = foldl (\<lambda>acc week. acc + fst (snd week)) 0 recentWeeks;
                       dels = foldl (\<lambda>acc week. acc + \<bar>snd (snd week)\<bar>) 0 recentWeeks
                   in \<lparr> additions = adds, deletions = dels, totalChanges = adds + dels \<rparr>)))"

section \<open>src/lib/metrics.ts: the pure calculators\<close>

subsection \<open>calculateMedian\<close>

definition calculateMedian :: "number list \<Rightarrow> number option" where
  "calculateMedian values =
     (if length values = 0 then None
      else
        let sortedv = sort values;
            middle = length sortedv div 2
        in if length sortedv mod 2 = 0
           then Some ((sortedv ! (middle - 1) + sortedv ! middle) / 2)
           else Some (sortedv ! middle))"

text \<open>
  The median as the specification words it: of the values in ascending order, the middle
  one when their number is odd, the mean of the two middle ones when it is even.
\<close>

definition standard_median :: "number list \<Rightarrow> number" where
  "standard_median ys =
     (if odd (length ys) then ys ! (length ys div 2)
      else (ys ! (length ys div 2 - 1) + ys ! (length ys div 2)) / 2)"

subsection \<open>Issue response time\<close>

text \<open>
  \<open>fetched\<close> is the outcome of the request for the comments of the issue. The pause of
  200 ms after each issue is not modelled.
\<close>

definition calculateIssueResponseTime :: "GitHubIssueComment list fetched \<Rightarrow> GitHubIssue \<Rightarrow> number option" where
  "calculateIssueResponseTime fetched issue =
     (let cs = fetchIssueComments fetched
      in if length cs = 0 then None
         else
           (case find (\<lambda>comment. user_type comment = ''User'') cs of
              None \<Rightarrow> None
            | Some firstResponse \<Rightarrow>
                Some ((comment_created_at firstResponse - created_at issue) / (1000 * 60 * 60))))"

definition calculateMedianIssueResponseTime ::
  "(nat \<Rightarrow> GitHubIssueComment list fetched) \<Rightarrow> GitHubIssue list \<Rightarrow> number option" where
  "calculateMedianIssueResponseTime commentsOf issues =
     (let closedIssues =
            take 5 (sort_key (\<lambda>issue. - created_at issue)
                      (filter (\<lambda>issue. state issue = IssueClosed \<and> comments issue > 0) issues))
      in if length closedIssues = 0 then None
         else calculateMedian
                (List.map_filter
                   (\<lambda>issue. calculateIssueResponseTime (commentsOf (issue_number issue)) issue)
                   closedIssues))"

subsection \<open>calculateTopContributorRatio\<close>

text \<open>
  The \<^verbatim>\<open>Map\<close> of the source is an association list in insertion order: setting a key
  that is present replaces its value in place, a new key goes to the end.
\<close>

definition commitAuthor :: "GitHubCommit \<Rightarrow> string" where
  "commitAuthor commit =
     (case author_login commit of
        None \<Rightarrow> commit_author_email commit
      | Some login \<Rightarrow> if login = [] then commit_author_email commit else login)"

definition calculateTopContributorRatio :: "GitHubCommit list \<Rightarrow> number" where
  "calculateTopContributorRatio commits =
     (if length commits = 0 then 0
      else
        (let contributorCounts =
               foldl (\<lambda>counts commit.
                        let author = commitAuthor commit
                        in AList.update author
                             ((case map_of counts author of None \<Rightarrow> 0 | Some c \<Rightarrow> c) + 1) counts)
                     [] commits;
             maxCommits = foldl (\<lambda>mx count. if count > mx then count else mx) (0 :: number)
                            (map snd contributorCounts)
         in (maxCommits / of_nat (length commits)) * 100))"

subsection \<open>Releases\<close>

record StatsAsset =
  sa_name :: string
  sa_size :: number
  downloads :: number

record ReleaseStats =
  tag :: string
  rs_name :: string
  publishedAt :: number
  daysAgo :: number
  rs_totalDownloads :: number
  assetsCount :: number
  isPrerelease :: bool
  rs_assets :: "StatsAsset list"

text \<open>The six fields that \<^verbatim>\<open>calculateReleaseStats\<close> returns.\<close>

record ReleaseRollup =
  releases :: "ReleaseStats list"
  totalReleases :: number
  releasesLast90Days :: number
  totalDownloads :: number
  averageDownloadsPerRelease :: number
  latestRelease :: "ReleaseStats option"

text \<open>The body of the \<^verbatim>\<open>releases.map\<close> callback; \<open>now\<close> is \<^verbatim>\<open>Date.now()\<close>.\<close>

definition releaseStat :: "number \<Rightarrow> GitHubRelease \<Rightarrow> ReleaseStats" where
  "releaseStat now release =
     \<lparr> tag = tag_name release,
       rs_name = (case release_name release of
                    None \<Rightarrow> tag_name release
                  | Some n \<Rightarrow> if n = [] then tag_name release else n),
       publishedAt = published_at release,
       daysAgo = Math_floor ((now - published_at release) / (1000 * 60 * 60 * 24)),
       rs_totalDownloads = foldl (\<lambda>sum asset. sum + download_count asset) 0 (assets release),
       assetsCount = of_nat (length (assets release)),
       isPrerelease = prerelease release,
       rs_assets = map (\<lambda>asset. \<lparr> sa_name = asset_name asset, sa_size = asset_size asset,
                                   downloads = download_count asset \<rparr>) (assets release) \<rparr>"

definition calculateReleaseStats :: "number \<Rightarrow> GitHubRelease list \<Rightarrow> ReleaseRollup" where
  "calculateReleaseStats now rels =
     (let ninetyDaysAgo = now - 90 * 24 * 60 * 60 * 1000;
          releaseStats = map (releaseStat now) rels;
          recentReleases = filter (\<lambda>r. publishedAt r \<ge> ninetyDaysAgo \<and> \<not> isPrerelease r) releaseStats;
          total = foldl (\<lambda>sum r. sum + rs_totalDownloads r) 0 releaseStats;
          nonPrereleases = filter (\<lambda>r. \<not> isPrerelease r) releaseStats
      in \<lparr> releases = releaseStats,
           totalReleases = of_nat (length nonPrereleases),
           releasesLast90Days = of_nat (length recentReleases),
           totalDownloads = total,
           averageDownloadsPerRelease =
             (if length nonPrereleases > 0
              then Math_round (total / of_nat (length nonPrereleases))
              else 0),
           latestRelease = (if length nonPrereleases > 0 then Some (nonPrereleases ! 0) else None) \<rparr>)"

subsection \<open>RepositoryMetrics and calculateHealthScore\<close>

text \<open>
  \<^verbatim>\<open>Omit<RepositoryMetrics, 'healthScore'>\<close> is the record \<open>MetricsData\<close>, built in the
  source by spreading the release rollup into the other fields; \<open>RepositoryMetrics\<close> adds
  the score. \<^verbatim>\<open>languages\<close> keeps the entries of the object in their order.
\<close>

record MetricsData = ReleaseRollup +
  owner :: string
  name :: string
  fullName :: string
  description :: "string option"
  stars :: number
  forks :: number
  openIssues :: number
  medianIssueResponseTime :: "number option"
  openIssuesCount :: number
  closedIssuesCount :: number
  totalCommitsLast90Days :: number
  topContributorRatio :: number
  watchers :: number
  lastCommitDate :: number
  openPullRequests :: number
  license :: "string option"
  languages :: "(string \<times> number) list"
  starsPerMonth :: number
  recentStarGrowth :: number
  prMergeRate :: number
  codeAdditions :: number
  codeDeletions :: number
  totalCodeChanges :: number

record RepositoryMetrics = MetricsData +
  healthScore :: number

text \<open>The five blocks of \<^verbatim>\<open>calculateHealthScore\<close>, each the amount it adds to the score.\<close>

definition responseTimeScore :: "number option \<Rightarrow> number" where
  "responseTimeScore t =
     (case t of
        Some h \<Rightarrow>
          if h < 24 then 20
          else if h < 48 then 16
          else if h < 72 then 12
          else if h < 168 then 8
          else 4
      | None \<Rightarrow> 10)"

definition issueResolutionScore :: "number \<Rightarrow> number \<Rightarrow> number" where
  "issueResolutionScore openCount closedCount =
     (let totalIssues = openCount + closedCount
      in if totalIssues > 0
         then (let closedRatio = closedCount / totalIssues in Math_round (closedRatio * 20))
         else 10)"

definition commitActivityScore :: "number \<Rightarrow> number" where
  "commitActivityScore c =
     (if c \<ge> 100 then 20
      else if c \<ge> 50 then 16
      else if c \<ge> 20 then 12
      else if c \<ge> 10 then 8
      else Math_round ((c / 10) * 8))"

definition busFactorScore :: "number \<Rightarrow> number" where
  "busFactorScore r =
     (if r < 40 then 20
      else if r < 50 then 16
      else if r < 60 then 12
      else if r < 70 then 8
      else 4)"

definition releaseActivityScore :: "ReleaseStats option \<Rightarrow> number" where
  "releaseActivityScore latest =
     (case latest of
        Some rel \<Rightarrow>
          (let d = daysAgo rel
           in if d \<le> 30 then 20
              else if d \<le> 60 then 16
              else if d \<le> 90 then 12
              else if d \<le> 180 then 8
              else 4)
      | None \<Rightarrow> 4)"

definition calculateHealthScore :: "'a MetricsData_scheme \<Rightarrow> number" where
  "calculateHealthScore metrics =
     (let score = 0;
          score = score + responseTimeScore (medianIssueResponseTime metrics);
          score = score + issueResolutionScore (openIssuesCount metrics) (closedIssuesCount metrics);
          score = score + commitActivityScore (totalCommitsLast90Days metrics);
          score = score + busFactorScore (topContributorRatio metrics);
          score = score + releaseActivityScore (latestRelease metrics)
      in min 100 (max 0 score))"

subsection \<open>analyzeRepository\<close>

text \<open>
  A progress event is its step and its percentage; the message text is left out. The
  events are those handed to \<^verbatim>\<open>onProgress\<close>, in order.
\<close>

record AnalysisStatus =
  step :: string
  progress :: number

definition emit :: "string \<Rightarrow> number \<Rightarrow> AnalysisStatus" where
  "emit s p = \<lparr> step = s, progress = p \<rparr>"

text \<open>
  What the network and the clock answer during one run: for each request of the run the
  outcome of its \<^verbatim>\<open>fetchWithRetry\<close> call (of \<^verbatim>\<open>fetch\<close> itself for the search of closed
  issues), and the two readings of \<^verbatim>\<open>Date.now()\<close>.
\<close>

record Network =
  repositoryFetched :: "GitHubRepository fetched"
  issuePages :: "GitHubIssue list fetched list"
  closedSearch :: "number fetched"
  commitPages :: "GitHubCommit list fetched list"
  releasePages :: "GitHubRelease list fetched list"
  commentsFetched :: "nat \<Rightarrow> GitHubIssueComment list fetched"
  languagesFetched :: "(string \<times> number) list fetched"
  openPRsFetched :: "number fetched"
  stargazersFetched :: "number list fetched"
  mergedPRsFetched :: "number fetched"
  closedPRsFetched :: "number fetched"
  codeFrequencyPolls :: "nat \<Rightarrow> (number \<times> number \<times> number) list fetched"
  nowReleases :: number
  nowStars :: number

text \<open>The interpolating callbacks that \<^verbatim>\<open>analyzeRepository\<close> hands to the three fetchers.\<close>

definition issuesProgress :: "nat \<Rightarrow> nat \<Rightarrow> AnalysisStatus" where
  "issuesProgress current tot = emit ''issues'' (20 + Math_floor ((of_nat current / of_nat tot) * 10))"

definition commitsProgress :: "nat \<Rightarrow> nat \<Rightarrow> AnalysisStatus" where
  "commitsProgress current tot = emit ''commits'' (40 + Math_floor ((of_nat current / of_nat tot) * 15))"

definition releasesProgress :: "nat \<Rightarrow> nat \<Rightarrow> AnalysisStatus" where
  "releasesProgress current tot = emit ''releases'' (55 + Math_floor ((of_nat current / of_nat tot) * 10))"

text \<open>Each \<^verbatim>\<open>try\<close> block after the first: the events it emits and the values it leaves.\<close>

definition issuesStep :: "Network \<Rightarrow> AnalysisStatus list \<times> GitHubIssue list" where
  "issuesStep net =
     (let (events, result) = fetchIssues 100 issuesProgress (issuePages net)
      in case result of
           Inr issues \<Rightarrow> (emit ''issues'' 20 # events @ [emit ''issues'' 30], issues)
         | Inl err \<Rightarrow> (emit ''issues'' 20 # events @ [emit ''issues'' 30], []))"

definition issueCountsStep ::
  "GitHubRepository \<Rightarrow> GitHubIssue list \<Rightarrow> Network \<Rightarrow> AnalysisStatus list \<times> number \<times> number" where
  "issueCountsStep repository issues net =
     (let openIssuesCount = open_issues_count repository;
          closedIssuesCount = 0
      in case closedSearch net of
           Inr closedResponse \<Rightarrow>
             if ok closedResponse
             then ([emit ''issue-counts'' 32], openIssuesCount, json closedResponse)
             else ([emit ''issue-counts'' 32], openIssuesCount, closedIssuesCount)
         | Inl err \<Rightarrow>
             ([emit ''issue-counts'' 32],
              of_nat (length (filter (\<lambda>i. state i = IssueOpen) issues)),
              of_nat (length (filter (\<lambda>i. state i = IssueClosed) issues))))"

definition commitsStep :: "Network \<Rightarrow> AnalysisStatus list \<times> GitHubCommit list" where
  "commitsStep net =
     (let (events, result) = fetchCommits commitsProgress (commitPages net)
      in case result of
           Inr commits \<Rightarrow> (emit ''commits'' 40 # events @ [emit ''commits'' 55], commits)
         | Inl err \<Rightarrow> (emit ''commits'' 40 # events @ [emit ''commits'' 55], []))"

definition releasesStep :: "Network \<Rightarrow> AnalysisStatus list \<times> GitHubRelease list" where
  "releasesStep net =
     (let (events, result) = fetchReleases 1000 releasesProgress (releasePages net)
      in case result of
           Inr rels \<Rightarrow> (emit ''releases'' 55 # events @ [emit ''releases'' 65], rels)
         | Inl err \<Rightarrow> (emit ''releases'' 55 # events @ [emit ''releases'' 65], []))"

definition responseTimeStep :: "GitHubIssue list \<Rightarrow> Network \<Rightarrow> AnalysisStatus list \<times> number option" where
  "responseTimeStep issues net =
     (if length issues > 0
      then ([emit ''response-time'' 70, emit ''response-time'' 85],
            calculateMedianIssueResponseTime (commentsFetched net) issues)
      else ([], None))"

definition additionalStep :: "Network \<Rightarrow> AnalysisStatus list \<times> (string \<times> number) list \<times> number" where
  "additionalStep net =
     (case fetchLanguages (languagesFetched net) of
        Inl err \<Rightarrow> ([emit ''additional'' 87], [], 0)
      | Inr langs \<Rightarrow>
          (case fetchOpenPullRequestsCount (openPRsFetched net) of
             Inl err \<Rightarrow> ([emit ''additional'' 87], langs, 0)
           | Inr n \<Rightarrow> ([emit ''additional'' 87], langs, n)))"

definition analyticsStep :: "Network \<Rightarrow> AnalysisStatus list \<times> StarGrowth \<times> PRStats \<times> CodeFrequency" where
  "analyticsStep net =
     ([emit ''analytics'' 90, emit ''analytics'' 93, emit ''analytics'' 96],
      fetchStarGrowth (nowStars net) (stargazersFetched net),
      fetchPRStats (mergedPRsFetched net) (closedPRsFetched net),
      fetchCodeFrequency (codeFrequencyPolls net))"

definition analyzeRepository ::
  "string \<Rightarrow> string \<Rightarrow> Network \<Rightarrow> AnalysisStatus list \<times> (error + RepositoryMetrics)" where
  "analyzeRepository ownr repo net =
     (case fetchRepository (repositoryFetched net) of
        Inl err \<Rightarrow> ([emit ''init'' 0, emit ''repo'' 10], Inl (FailedToFetchRepository err))
      | Inr repository \<Rightarrow>
          (let (issueEvents, issues) = issuesStep net;
               (countEvents, openCount, closedCount) = issueCountsStep repository issues net;
               (commitEvents, commits) = commitsStep net;
               (releaseEvents, rels) = releasesStep net;
               (responseEvents, median) = responseTimeStep issues net;
               releaseStats = calculateReleaseStats (nowReleases net) rels;
               (additionalEvents, langs, openPRs) = additionalStep net;
               (analyticsEvents, starGrowth, prStats, codeFreq) = analyticsStep net;
               metricsData =
                 \<lparr> releases = releases releaseStats,
                   totalReleases = totalReleases releaseStats,
                   releasesLast90Days = releasesLast90Days releaseStats,
                   totalDownloads = totalDownloads releaseStats,
                   averageDownloadsPerRelease = averageDownloadsPerRelease releaseStats,
                   latestRelease = latestRelease releaseStats,
                   owner = ownr,
                   name = repo_name repository,
                   fullName = full_name repository,
                   description = repo_description repository,
                   stars = stargazers_count repository,
                   forks = forks_count repository,
                   openIssues = open_issues_count repository,
                   medianIssueResponseTime = median,
                   openIssuesCount = openCount,
                   closedIssuesCount = closedCount,
                   totalCommitsLast90Days = of_nat (length commits),
                   topContributorRatio = calculateTopContributorRatio commits,
                   watchers = subscribers_count repository,
                   lastCommitDate =
                     (if length commits > 0 then commit_author_date (commits ! 0)
                      else updated_at repository),
                   openPullRequests = openPRs,
                   license =
                     (case license_name repository of
                        None \<Rightarrow> None
                      | Some n \<Rightarrow> if n = [] then None else Some n),
                   languages = langs,
                   starsPerMonth = sg_starsPerMonth starGrowth,
                   recentStarGrowth = recentGrowth starGrowth,
                   prMergeRate = mergeRate prStats,
                   codeAdditions = additions codeFreq,
                   codeDeletions = deletions codeFreq,
                   totalCodeChanges = totalChanges codeFreq \<rparr>;
               score = calculateHealthScore metricsData
           in (emit ''init'' 0 # emit ''repo'' 10 # emit ''repo'' 15
                 # issueEvents @ countEvents @ commitEvents @ releaseEvents @ responseEvents
                 @ additionalEvents @ analyticsEvents
                 @ [emit ''calculating'' 98, emit ''complete'' 100],
               Inr (MetricsData.extend metricsData (RepositoryMetrics.fields score)))))"

subsection \<open>getHealthScoreInterpretation\<close>

record Interpretation =
  label :: string
  interp_description :: string
  color :: string

definition getHealthScoreInterpretation :: "number \<Rightarrow> Interpretation" where
  "getHealthScoreInterpretation score =
     (if score \<ge> 80 then
        \<lparr> label = ''Excellent'',
          interp_description = ''This project is very healthy with active maintenance and community engagement.'',
          color = ''green'' \<rparr>
      else if score \<ge> 60 then
        \<lparr> label = ''Good'',
          interp_description = ''This project is generally well-maintained with room for improvement.'',
          color = ''blue'' \<rparr>
      else if score \<ge> 40 then
        \<lparr> label = ''Fair'',
          interp_description = ''This project shows some signs of maintenance but may have concerns.'',
          color = ''yellow'' \<rparr>
      else
        \<lparr> label = ''Needs Attention'',
          interp_description = ''This project may have maintenance or community engagement concerns.'',
          color = ''red'' \<rparr>)"

subsection \<open>The claims about releases, in the words of the specification\<close>

definition assetDownloads :: "GitHubRelease \<Rightarrow> number" where
  "assetDownloads release = sum_list (map download_count (assets release))"

text \<open>
  The average as the specification words it: the downloads of the releases that are not
  prereleases, over their number, rounded; 0 when there is none.
\<close>

definition spec_averageDownloads :: "GitHubRelease list \<Rightarrow> number" where
  "spec_averageDownloads rels =
     (let stable = filter (\<lambda>r. \<not> prerelease r) rels
      in if stable = [] then 0
         else Math_round (sum_list (map assetDownloads stable) / of_nat (length stable)))"

text \<open>A release with one asset that was downloaded \<open>n\<close> times.\<close>

definition exampleRelease :: "bool \<Rightarrow> number \<Rightarrow> GitHubRelease" where
  "exampleRelease pre n =
     \<lparr> tag_name = ''v1'', release_name = None, published_at = 0, prerelease = pre, draft = False,
       assets = [\<lparr> asset_name = ''a.zip'', asset_size = 1, download_count = n \<rparr>] \<rparr>"

section \<open>Example inputs and auxiliary predicates\<close>

text \<open>A network on which every attempt is answered with status 503.\<close>

definition always503 :: "nat \<Rightarrow> error + unit response" where
  "always503 i = Inr (Response 503 ())"

text \<open>
  A repository whose information is fetched while every other request of the run is
  rejected.
\<close>

definition exampleRepository :: GitHubRepository where
  "exampleRepository =
     \<lparr> repo_name = ''repo-pulse'', full_name = ''ceviixx/repo-pulse'', repo_description = None,
       stargazers_count = 120, forks_count = 3, open_issues_count = 5, subscribers_count = 2,
       updated_at = 1000, license_name = Some ''MIT'' \<rparr>"

definition downNetwork :: Network where
  "downNetwork =
     \<lparr> repositoryFetched = Inr (Response 200 exampleRepository),
       issuePages = [Inl NetworkError],
       closedSearch = Inl NetworkError,
       commitPages = [Inl NetworkError],
       releasePages = [Inl NetworkError],
       commentsFetched = (\<lambda>n. Inl NetworkError),
       languagesFetched = Inl NetworkError,
       openPRsFetched = Inl NetworkError,
       stargazersFetched = Inl NetworkError,
       mergedPRsFetched = Inl NetworkError,
       closedPRsFetched = Inl NetworkError,
       codeFrequencyPolls = (\<lambda>n. Inl NetworkError),
       nowReleases = 5000,
       nowStars = 6000 \<rparr>"

text \<open>An item of the issues endpoint, a pull request when \<open>pr\<close> holds.\<close>

definition exampleIssue :: "bool \<Rightarrow> GitHubIssue" where
  "exampleIssue pr = \<lparr> issue_number = 1, state = IssueOpen, created_at = 0, comments = 0, pull_request = pr \<rparr>"

text \<open>A page of the issues endpoint with \<open>n\<close> issues and \<open>k\<close> pull requests.\<close>

definition issuePage :: "nat \<Rightarrow> nat \<Rightarrow> GitHubIssue list fetched" where
  "issuePage n k = Inr (Response 200 (replicate n (exampleIssue False) @ replicate k (exampleIssue True)))"

text \<open>
  Five full pages of 90 issues and 10 pull requests each, then a full page of 100
  issues: the loop of \<^verbatim>\<open>fetchIssues\<close> enters its sixth round with 450 issues.
\<close>

definition busyNetwork :: Network where
  "busyNetwork = downNetwork \<lparr> issuePages :=
     [issuePage 90 10, issuePage 90 10, issuePage 90 10, issuePage 90 10, issuePage 90 10,
      issuePage 100 0] \<rparr>"

text \<open>The repository does not exist: status 404.\<close>

definition missingNetwork :: Network where
  "missingNetwork = downNetwork \<lparr> repositoryFetched := Inr (Response 404 exampleRepository) \<rparr>"

text \<open>
  The server honours \<^verbatim>\<open>per_page\<close>: a page that is read (the response is ok) holds at most
  \<open>n\<close> entries.
\<close>

definition pageSizeAtMost :: "nat \<Rightarrow> 'a list fetched \<Rightarrow> bool" where
  "pageSizeAtMost n fetched =
     (case fetched of Inl err \<Rightarrow> True
      | Inr response \<Rightarrow> \<not> ok response \<or> length (json response) \<le> n)"

text \<open>
  The events of a step are in ascending order of progress and between the two checkpoints
  of the step.
\<close>

definition checkpointed :: "number \<Rightarrow> number \<Rightarrow> AnalysisStatus list \<Rightarrow> bool" where
  "checkpointed lo hi es = (sorted (map progress es) \<and> (\<forall>e \<in> set es. lo \<le> progress e \<and> progress e \<le> hi))"

section \<open>The health score\<close>

lemma Math_round_Ints: "Math_round x \<in> \<int>"
  by (simp add: Math_round_def)

lemma responseTimeScore_Ints: "responseTimeScore t \<in> \<int>"
  by (simp add: responseTimeScore_def split: option.splits)

lemma issueResolutionScore_Ints: "issueResolutionScore a b \<in> \<int>"
  by (simp add: issueResolutionScore_def Let_def Math_round_Ints)

lemma commitActivityScore_Ints: "commitActivityScore c \<in> \<int>"
  by (simp add: commitActivityScore_def Math_round_Ints)

lemma busFactorScore_Ints: "busFactorScore r \<in> \<int>"
  by (simp add: busFactorScore_def)

lemma releaseActivityScore_Ints: "releaseActivityScore latest \<in> \<int>"
  by (simp add: releaseActivityScore_def Let_def split: option.splits)

lemma clamp_Ints: "s \<in> \<int> \<Longrightarrow> min (100::real) (max 0 s) \<in> \<int>"
  by (simp add: min_def max_def)

lemma calculateHealthScore_sum:
  "calculateHealthScore m =
     min 100 (max 0 (responseTimeScore (medianIssueResponseTime m)
       + issueResolutionScore (openIssuesCount m) (closedIssuesCount m)
       + commitActivityScore (totalCommitsLast90Days m)
       + busFactorScore (topContributorRatio m)
       + releaseActivityScore (latestRelease m)))"
  by (simp add: calculateHealthScore_def Let_def)

text \<open>
  Claim C1. Whatever the metrics are (a response time or none, counts and ratios of any
  sign), \<open>calculateHealthScore\<close> returns an integer between 0 and 100: the sum of the five
  sub-scores, clamped to that range.
\<close>

theorem calculateHealthScore_bounded:
  "0 \<le> calculateHealthScore m \<and> calculateHealthScore m \<le> 100
   \<and> (\<exists>k::int. calculateHealthScore m = of_int k)
   \<and> calculateHealthScore m =
     min 100 (max 0 (responseTimeScore (medianIssueResponseTime m)
       + issueResolutionScore (openIssuesCount m) (closedIssuesCount m)
       + commitActivityScore (totalCommitsLast90Days m)
       + busFactorScore (topContributorRatio m)
       + releaseActivityScore (latestRelease m)))"
proof -
  let ?s = "responseTimeScore (medianIssueResponseTime m)
       + issueResolutionScore (openIssuesCount m) (closedIssuesCount m)
       + commitActivityScore (totalCommitsLast90Days m)
       + busFactorScore (topContributorRatio m)
       + releaseActivityScore (latestRelease m)"
  have eq: "calculateHealthScore m = min 100 (max 0 ?s)"
    by (rule calculateHealthScore_sum)
  have "?s \<in> \<int>"
    by (intro Ints_add responseTimeScore_Ints issueResolutionScore_Ints
        commitActivityScore_Ints busFactorScore_Ints releaseActivityScore_Ints)
  then have "min 100 (max 0 ?s) \<in> \<int>" by (rule clamp_Ints)
  then obtain k :: int where "min 100 (max 0 ?s) = of_int k" by (auto elim: Ints_cases)
  with eq show ?thesis by auto
qed

text \<open>
  Claim C2. With no response-time sample, 5 open and 45 closed issues, 30 commits in 90
  days, a top-contributor ratio of 60 and a latest release 10 days old, the score is 68:
  10 + 18 + 12 + 8 + 20. The other fields of the metrics (\<open>m\<close>) and of the release (\<open>r\<close>)
  are arbitrary.
\<close>

theorem calculateHealthScore_scenario_68:
  "calculateHealthScore (m\<lparr> medianIssueResponseTime := None, openIssuesCount := 5,
      closedIssuesCount := 45, totalCommitsLast90Days := 30, topContributorRatio := 60,
      latestRelease := Some (r\<lparr> daysAgo := 10 \<rparr>) \<rparr>) = 68
   \<and> responseTimeScore None = 10
   \<and> issueResolutionScore 5 45 = 18
   \<and> commitActivityScore 30 = 12
   \<and> busFactorScore 60 = 8
   \<and> releaseActivityScore (Some (r\<lparr> daysAgo := 10 \<rparr>)) = 20"
  by (simp add: calculateHealthScore_def responseTimeScore_def issueResolutionScore_def
      commitActivityScore_def busFactorScore_def releaseActivityScore_def Math_round_def Let_def)

text \<open>
  Claim C9. The response-time sub-score compares strictly: every median below 24 hours
  adds 20 points and every median from 24 hours to below 48 adds 16, so exactly 24 hours
  adds 16 and not 20. The same holds of the whole score, whatever the other fields are.
\<close>

theorem responseTime_24_hours:
  "(h < 24 \<longrightarrow> responseTimeScore (Some h) = 20)
   \<and> (24 \<le> h \<and> h < 48 \<longrightarrow> responseTimeScore (Some h) = 16)
   \<and> responseTimeScore (Some 24) = 16 \<and> responseTimeScore (Some 24) \<noteq> 20
   \<and> (h < 24 \<longrightarrow>
        calculateHealthScore (m\<lparr> medianIssueResponseTime := Some h \<rparr>) =
          min 100 (max 0 (20
            + issueResolutionScore (openIssuesCount m) (closedIssuesCount m)
            + commitActivityScore (totalCommitsLast90Days m)
            + busFactorScore (topContributorRatio m)
            + releaseActivityScore (latestRelease m))))
   \<and> (24 \<le> h \<and> h < 48 \<longrightarrow>
        calculateHealthScore (m\<lparr> medianIssueResponseTime := Some h \<rparr>) =
          min 100 (max 0 (16
            + issueResolutionScore (openIssuesCount m) (closedIssuesCount m)
            + commitActivityScore (totalCommitsLast90Days m)
            + busFactorScore (topContributorRatio m)
            + releaseActivityScore (latestRelease m))))
   \<and> calculateHealthScore (m\<lparr> medianIssueResponseTime := Some 24 \<rparr>) =
     min 100 (max 0 (16
       + issueResolutionScore (openIssuesCount m) (closedIssuesCount m)
       + commitActivityScore (totalCommitsLast90Days m)
       + busFactorScore (topContributorRatio m)
       + releaseActivityScore (latestRelease m)))"
  by (simp add: calculateHealthScore_def responseTimeScore_def Let_def)

theorem responseTime_24_hours_witness:
  "(23::real) < 24 \<and> responseTimeScore (Some 23) = 20
   \<and> (24::real) \<le> 47 \<and> (47::real) < 48 \<and> responseTimeScore (Some 47) = 16
   \<and> responseTimeScore (Some 24) = 16"
  using responseTime_24_hours [where h = 23, THEN conjunct1]
    responseTime_24_hours [where h = 47, THEN conjunct2, THEN conjunct1]
    responseTime_24_hours [where h = 24, THEN conjunct2, THEN conjunct2, THEN conjunct1]
  by simp

text \<open>
  Claim C10. \<open>getHealthScoreInterpretation\<close> answers for every number: Excellent from 80
  up (above 100 too), Good from 60 to below 80, Fair from 40 to below 60, Needs Attention
  below 40 (negative scores too).
\<close>

theorem interpretation_total:
  "(score \<ge> 80 \<longrightarrow> label (getHealthScoreInterpretation score) = ''Excellent'')
   \<and> (60 \<le> score \<and> score < 80 \<longrightarrow> label (getHealthScoreInterpretation score) = ''Good'')
   \<and> (40 \<le> score \<and> score < 60 \<longrightarrow> label (getHealthScoreInterpretation score) = ''Fair'')
   \<and> (score < 40 \<longrightarrow> label (getHealthScoreInterpretation score) = ''Needs Attention'')"
  by (simp add: getHealthScoreInterpretation_def)

theorem interpretation_total_witness:
  "(150::real) \<ge> 80 \<and> label (getHealthScoreInterpretation 150) = ''Excellent''
   \<and> (60::real) \<le> 60 \<and> (60::real) < 80 \<and> label (getHealthScoreInterpretation 60) = ''Good''
   \<and> (40::real) \<le> 59 \<and> (59::real) < 60 \<and> label (getHealthScoreInterpretation 59) = ''Fair''
   \<and> (-5::real) < 40 \<and> label (getHealthScoreInterpretation (-5)) = ''Needs Attention''"
  using interpretation_total [of 150] interpretation_total [of 60]
    interpretation_total [of 59] interpretation_total [of "-5"]
  by simp

section \<open>The median\<close>

text \<open>
  Claim C8. \<open>calculateMedian\<close> is the median of the sorted values: for any ascending
  arrangement \<open>ys\<close> of the values \<open>xs\<close> it returns nothing when there are no values, and
  otherwise the middle element of \<open>ys\<close> (odd length) or the mean of its two middle elements
  (even length). The median of 1, 2, 3 is 2, that of 1, 2, 3, 4 is 2.5.
\<close>

theorem calculateMedian_standard:
  assumes "sorted ys" and "mset ys = mset xs"
  shows "calculateMedian xs = (if xs = [] then None else Some (standard_median ys))
    \<and> calculateMedian [] = None
    \<and> calculateMedian [1, 2, 3] = Some 2
    \<and> calculateMedian [1, 2, 3, 4] = Some (5 / 2)"
proof -
  have s: "sort xs = ys"
    using assms by (simp add: properties_for_sort)
  have a: "calculateMedian xs = (if xs = [] then None else Some (standard_median ys))"
    using s by (auto simp: calculateMedian_def standard_median_def Let_def)
  have b: "calculateMedian [] = None" by (simp add: calculateMedian_def)
  have c: "calculateMedian [1, 2, 3] = Some 2" by (simp add: calculateMedian_def Let_def)
  have d: "calculateMedian [1, 2, 3, 4] = Some (5 / 2)" by (simp add: calculateMedian_def Let_def)
  from a b c d show ?thesis by blast
qed

theorem calculateMedian_standard_witness:
  "sorted [1, 2, 3 :: real] \<and> mset [1, 2, 3 :: real] = mset [3, 1, 2]
   \<and> calculateMedian [3, 1, 2] = Some 2"
proof -
  have h1: "sorted [1, 2, 3 :: real]" by simp
  have h2: "mset [1, 2, 3 :: real] = mset [3, 1, 2]" by (simp add: add_mset_commute)
  have "standard_median [1, 2, 3] = 2" by (simp add: standard_median_def)
  with calculateMedian_standard [OF h1 h2] h1 h2 show ?thesis by simp
qed

section \<open>The release rollup\<close>

lemma foldl_plus_sum_list: "foldl (\<lambda>s x. s + f x) z xs = z + sum_list (map f xs)" for z :: real
  by (induction xs arbitrary: z) simp_all

lemma rs_totalDownloads_releaseStat: "rs_totalDownloads (releaseStat now r) = assetDownloads r"
  by (simp add: releaseStat_def assetDownloads_def foldl_plus_sum_list)

lemma isPrerelease_releaseStat: "isPrerelease (releaseStat now r) = prerelease r"
  by (simp add: releaseStat_def)

lemma filter_stable_map:
  "filter (\<lambda>r. \<not> isPrerelease r) (map (releaseStat now) rels) =
   map (releaseStat now) (filter (\<lambda>r. \<not> prerelease r) rels)"
  by (simp add: filter_map o_def isPrerelease_releaseStat)

lemma totalDownloads_all:
  "totalDownloads (calculateReleaseStats now rels) = sum_list (map assetDownloads rels)"
  by (simp add: calculateReleaseStats_def Let_def foldl_plus_sum_list o_def rs_totalDownloads_releaseStat)

lemma totalReleases_stable:
  "totalReleases (calculateReleaseStats now rels) = of_nat (length (filter (\<lambda>r. \<not> prerelease r) rels))"
  by (simp add: calculateReleaseStats_def Let_def filter_stable_map)

text \<open>
  Claim C4. \<open>totalDownloads\<close> is the sum of the asset download counts over all releases,
  prereleases included; \<open>totalReleases\<close> counts the releases that are not prereleases. For
  downloads 10, 5 (a prerelease) and 0 that is 15 downloads and 2 releases.
\<close>

theorem release_rollup_totals:
  "totalDownloads (calculateReleaseStats now rels) = (\<Sum>r\<leftarrow>rels. \<Sum>a\<leftarrow>assets r. download_count a)
   \<and> totalReleases (calculateReleaseStats now rels) = of_nat (length (filter (\<lambda>r. \<not> prerelease r) rels))
   \<and> totalDownloads (calculateReleaseStats now
        [exampleRelease False 10, exampleRelease True 5, exampleRelease False 0]) = 15
   \<and> totalReleases (calculateReleaseStats now
        [exampleRelease False 10, exampleRelease True 5, exampleRelease False 0]) = 2"
proof -
  have "totalDownloads (calculateReleaseStats now rels) = (\<Sum>r\<leftarrow>rels. \<Sum>a\<leftarrow>assets r. download_count a)"
    using totalDownloads_all [of now rels] by (simp add: assetDownloads_def [abs_def])
  moreover have "totalDownloads (calculateReleaseStats now
        [exampleRelease False 10, exampleRelease True 5, exampleRelease False 0]) = 15"
    by (simp add: totalDownloads_all assetDownloads_def exampleRelease_def)
  moreover have "totalReleases (calculateReleaseStats now
        [exampleRelease False 10, exampleRelease True 5, exampleRelease False 0]) = 2"
    by (simp add: totalReleases_stable exampleRelease_def)
  ultimately show ?thesis using totalReleases_stable by blast
qed

text \<open>
  Claim C3. The average should be taken over the releases that are not prereleases. The
  code divides the downloads of all releases by the number of releases that are not
  prereleases: with a release of 10 downloads and a prerelease of 5 it returns 15 where
  the average is 10, and with a release never downloaded and a prerelease of 1000 it
  returns 1000 where the average is 0.
\<close>

theorem averageDownloads_counts_prereleases:
  "averageDownloadsPerRelease (calculateReleaseStats 0 [exampleRelease False 10, exampleRelease True 5]) = 15
   \<and> spec_averageDownloads [exampleRelease False 10, exampleRelease True 5] = 10
   \<and> averageDownloadsPerRelease (calculateReleaseStats 0 [exampleRelease False 10, exampleRelease True 5])
       \<noteq> spec_averageDownloads [exampleRelease False 10, exampleRelease True 5]
   \<and> averageDownloadsPerRelease (calculateReleaseStats 0 [exampleRelease False 0, exampleRelease True 1000]) = 1000
   \<and> spec_averageDownloads [exampleRelease False 0, exampleRelease True 1000] = 0"
  by (simp add: calculateReleaseStats_def Let_def releaseStat_def exampleRelease_def
      spec_averageDownloads_def assetDownloads_def Math_round_def)

text \<open>
  The source of the difference, for every list of releases: the dividend of the code is
  \<open>totalDownloads\<close>, which counts the prereleases, and the divisor is not.
\<close>

lemma averageDownloads_dividend:
  "averageDownloadsPerRelease (calculateReleaseStats now rels) =
     (if filter (\<lambda>r. \<not> prerelease r) rels = [] then 0
      else Math_round (totalDownloads (calculateReleaseStats now rels)
                         / of_nat (length (filter (\<lambda>r. \<not> prerelease r) rels))))"
  by (simp add: calculateReleaseStats_def Let_def o_def isPrerelease_releaseStat filter_stable_map)

section \<open>fetchWithRetry\<close>

lemma fetchWithRetry_from_503:
  assumes all503: "\<And>j. \<exists>response. net j = Inr response \<and> status response = 503"
  shows "i \<le> retries \<Longrightarrow>
    fetchWithRetry_from net retries i =
      (concat (map (\<lambda>j. [Request, Sleep (backoff j)]) [i..<retries]) @ [Request], net retries)"
proof (induction "retries - i" arbitrary: i)
  case 0
  then have i: "i = retries" by simp
  obtain response where r: "net retries = Inr response" "status response = 503"
    using all503 by blast
  show ?case
    unfolding i using r by (subst fetchWithRetry_from.simps) simp
next
  case (Suc n)
  then have lt: "i < retries" by simp
  obtain response where r: "net i = Inr response" "status response = 503"
    using all503 by blast
  have IH: "fetchWithRetry_from net retries (Suc i) =
      (concat (map (\<lambda>j. [Request, Sleep (backoff j)]) [Suc i..<retries]) @ [Request], net retries)"
    using Suc.hyps(1) [of "Suc i"] Suc.hyps(2) lt by simp
  have upt: "[i..<retries] = i # [Suc i..<retries]"
    using lt by (simp add: upt_conv_Cons)
  show ?case
    using lt r by (subst fetchWithRetry_from.simps) (simp add: IH upt retryable_def)
qed

lemma count_requests:
  "length (filter (\<lambda>a. a = Request) (concat (map (\<lambda>j. [Request, Sleep (f j)]) js))) = length js"
  by (induction js) simp_all

text \<open>
  Claim C7. When every attempt is answered with status 503, \<open>fetchWithRetry\<close> with
  budget \<open>retries\<close> makes exactly \<open>retries + 1\<close> requests and waits
  \<open>min (1000 * 2 ^ i) 8000\<close> milliseconds after attempt \<open>i\<close>, before each further attempt;
  the call then ends with the last 503 response, which is not ok.
\<close>

theorem fetchWithRetry_always_503:
  assumes "\<forall>i. \<exists>response. net i = Inr response \<and> status response = 503"
  shows "fst (fetchWithRetry net retries) =
           concat (map (\<lambda>i. [Request, Sleep (min (1000 * 2 ^ i) 8000)]) [0..<retries]) @ [Request]
    \<and> length (filter (\<lambda>a. a = Request) (fst (fetchWithRetry net retries))) = retries + 1
    \<and> snd (fetchWithRetry net retries) = net retries
    \<and> (\<exists>response. snd (fetchWithRetry net retries) = Inr response
          \<and> status response = 503 \<and> \<not> ok response)"
proof -
  have eq: "fetchWithRetry net retries =
      (concat (map (\<lambda>j. [Request, Sleep (backoff j)]) [0..<retries]) @ [Request], net retries)"
    unfolding fetchWithRetry_def using assms by (intro fetchWithRetry_from_503) auto
  obtain response where r: "net retries = Inr response" "status response = 503"
    using assms by blast
  have "\<not> ok response" using r by (simp add: ok_def)
  with eq r show ?thesis
    by (simp add: backoff_def [abs_def] count_requests)
qed

theorem fetchWithRetry_always_503_witness:
  "(\<forall>i. \<exists>response. always503 i = Inr response \<and> status response = 503)
   \<and> fst (fetchWithRetry always503 5) =
       [Request, Sleep 1000, Request, Sleep 2000, Request, Sleep 4000, Request, Sleep 8000,
        Request, Sleep 8000, Request]
   \<and> snd (fetchWithRetry always503 5) = Inr (Response 503 ())"
proof -
  have h: "\<forall>i. \<exists>response. always503 i = Inr response \<and> status response = 503"
    by (simp add: always503_def)
  have u: "[0..<5] = [0, 1, 2, 3, 4]" by (simp add: upt_rec numeral_eq_Suc)
  from fetchWithRetry_always_503 [of always503 5] h show ?thesis
    by (simp add: u always503_def)
qed

section \<open>The failure policy of analyzeRepository\<close>

lemma analyze_result_Inl:
  "fetchRepository (repositoryFetched net) = Inl err \<Longrightarrow>
   snd (analyzeRepository ownr repo net) = Inl (FailedToFetchRepository err)"
  by (simp add: analyzeRepository_def)










section \<open>The progress events of analyzeRepository\<close>

lemma analyze_events:
  "fetchRepository (repositoryFetched net) = Inr repository \<Longrightarrow>
   fst (analyzeRepository ownr repo net) =
     emit ''init'' 0 # emit ''repo'' 10 # emit ''repo'' 15
       # fst (issuesStep net)
       @ fst (issueCountsStep repository (snd (issuesStep net)) net)
       @ fst (commitsStep net)
       @ fst (releasesStep net)
       @ fst (responseTimeStep (snd (issuesStep net)) net)
       @ fst (additionalStep net)
       @ fst (analyticsStep net)
       @ [emit ''calculating'' 98, emit ''complete'' 100]"
  by (simp add: analyzeRepository_def Let_def case_prod_beta)

lemma analyze_events_Inl:
  "fetchRepository (repositoryFetched net) = Inl err \<Longrightarrow>
   fst (analyzeRepository ownr repo net) = [emit ''init'' 0, emit ''repo'' 10]"
  by (simp add: analyzeRepository_def)

lemma analyze_result_Inr:
  "fetchRepository (repositoryFetched net) = Inr repository \<Longrightarrow>
   \<exists>m. snd (analyzeRepository ownr repo net) = Inr m"
  by (simp add: analyzeRepository_def Let_def case_prod_beta)

lemma busy_issues:
  "fetchIssues 100 f (issuePages busyNetwork) =
     ([f 90 500, f 180 500, f 270 500, f 360 500, f 450 500, f 550 500],
      Inr (replicate 90 (exampleIssue False) @ replicate 90 (exampleIssue False)
        @ replicate 90 (exampleIssue False) @ replicate 90 (exampleIssue False)
        @ replicate 90 (exampleIssue False) @ replicate 100 (exampleIssue False)))"
  by (simp add: busyNetwork_def downNetwork_def fetchIssues_def issuePage_def ok_def exampleIssue_def
     Let_def)

lemma busy_steps:
  "fst (issuesStep busyNetwork) = map (emit ''issues'') [20, 21, 23, 25, 27, 29, 31, 30]"
  "length (snd (issuesStep busyNetwork)) = 550"
  by (simp_all add: issuesStep_def busy_issues issuesProgress_def Math_floor_def)

text \<open>
  Claim C6. The progress percentages of a run should never decrease. The code breaks
  this on a server that honours \<^verbatim>\<open>per_page\<close>: every page of issues holds 100 entries, the
  issues loop enters its sixth round with 450 issues and the page brings 100 more, so the
  interpolated percentage is 20 + 11 = 31 while the checkpoint that follows is 30. The
  sequence of the run starts at 0, ends at 100 and steps back from 31 to 30.
\<close>

theorem progress_not_monotone:
  "map (\<lambda>fetched. case fetched of Inl err \<Rightarrow> 0 | Inr response \<Rightarrow> length (json response))
       (issuePages busyNetwork) = [100, 100, 100, 100, 100, 100]
   \<and> map fst (fst (fetchIssues 100 Pair (issuePages busyNetwork))) = [90, 180, 270, 360, 450, 550]
   \<and> map progress (fst (analyzeRepository ''ceviixx'' ''repo-pulse'' busyNetwork)) =
     [0, 10, 15, 20, 21, 23, 25, 27, 29, 31, 30, 32, 40, 55, 55, 65, 70, 85, 87, 90, 93, 96, 98, 100]
   \<and> \<not> sorted (map progress (fst (analyzeRepository ''ceviixx'' ''repo-pulse'' busyNetwork)))"
proof -
  have repo: "fetchRepository (repositoryFetched busyNetwork) = Inr exampleRepository"
    by (simp add: busyNetwork_def downNetwork_def fetchRepository_def ok_def)
  have commits: "fst (commitsStep busyNetwork) = map (emit ''commits'') [40, 55]"
    by (simp add: commitsStep_def fetchCommits_def busyNetwork_def downNetwork_def)
  have rels: "fst (releasesStep busyNetwork) = map (emit ''releases'') [55, 65]"
    by (simp add: releasesStep_def fetchReleases_def busyNetwork_def downNetwork_def)
  have counts: "fst (issueCountsStep r i busyNetwork) = [emit ''issue-counts'' 32]" for r i
    by (simp add: issueCountsStep_def busyNetwork_def downNetwork_def)
  have resp: "fst (responseTimeStep (snd (issuesStep busyNetwork)) busyNetwork)
      = map (emit ''response-time'') [70, 85]"
    using busy_steps(2) by (simp add: responseTimeStep_def)
  have addl: "fst (additionalStep busyNetwork) = [emit ''additional'' 87]"
    by (simp add: additionalStep_def busyNetwork_def downNetwork_def fetchLanguages_def)
  have a: "map progress (fst (analyzeRepository ''ceviixx'' ''repo-pulse'' busyNetwork)) =
     [0, 10, 15, 20, 21, 23, 25, 27, 29, 31, 30, 32, 40, 55, 55, 65, 70, 85, 87, 90, 93, 96, 98, 100]"
    by (simp add: analyze_events [OF repo] busy_steps(1) commits rels counts resp addl
        analyticsStep_def emit_def)
  have sizes: "map (\<lambda>fetched. case fetched of Inl err \<Rightarrow> 0 | Inr response \<Rightarrow> length (json response))
       (issuePages busyNetwork) = [100, 100, 100, 100, 100, 100]"
    by (simp add: busyNetwork_def downNetwork_def issuePage_def)
  have reports: "map fst (fst (fetchIssues 100 Pair (issuePages busyNetwork))) = [90, 180, 270, 360, 450, 550]"
    by (simp add: busy_issues)
  show ?thesis unfolding a using sizes reports by simp
qed

text \<open>
  What holds of every run: the first percentage is 0; a run that returns metrics ends at
  100, and a run whose repository fetch fails stops after 0 and 10.
\<close>

lemma progress_first_last:
  "hd (map progress (fst (analyzeRepository ownr repo net))) = 0
   \<and> (case snd (analyzeRepository ownr repo net) of
        Inr m \<Rightarrow> last (map progress (fst (analyzeRepository ownr repo net))) = 100
      | Inl err \<Rightarrow> map progress (fst (analyzeRepository ownr repo net)) = [0, 10])"
proof (cases "fetchRepository (repositoryFetched net)")
  case (Inl err)
  then show ?thesis
    by (simp add: analyze_events_Inl analyze_result_Inl emit_def)
next
  case (Inr repository)
  from analyze_result_Inr [OF Inr] obtain m where m: "snd (analyzeRepository ownr repo net) = Inr m"
    by blast
  have "hd (map progress (fst (analyzeRepository ownr repo net))) = 0"
    by (simp add: analyze_events [OF Inr] emit_def)
  moreover have "last (map progress (fst (analyzeRepository ownr repo net))) = 100"
    by (simp add: analyze_events [OF Inr] emit_def)
  ultimately show ?thesis by (simp add: m)
qed

lemma progress_missing_repository:
  "map progress (fst (analyzeRepository ''ceviixx'' ''repo-pulse'' missingNetwork)) = [0, 10]"
proof -
  have miss: "fetchRepository (repositoryFetched missingNetwork) = Inl RepositoryNotFound"
    by (simp add: missingNetwork_def downNetwork_def fetchRepository_def ok_def)
  show ?thesis
    by (simp add: analyze_events_Inl [OF miss] emit_def)
qed

text \<open>
  The loops of \<^verbatim>\<open>fetchCommits\<close> and \<^verbatim>\<open>fetchReleases\<close> do stay between their checkpoints
  when the pages hold at most 100 entries: commits are not filtered, so their count
  reaches 1000 exactly, and 1099 releases still interpolate to 65.
\<close>

lemma fetchCommits_loop_param:
  "fst (fetchCommits_loop f pages acc) = map (\<lambda>(c, t). f c t) (fst (fetchCommits_loop Pair pages acc))"
  by (induction pages arbitrary: acc) (simp_all add: Let_def case_prod_beta split: sum.splits)

lemma fetchReleases_loop_param:
  "fst (fetchReleases_loop lmt f pages acc) = map (\<lambda>(c, t). f c t) (fst (fetchReleases_loop lmt Pair pages acc))"
  by (induction pages arbitrary: acc) (simp_all add: Let_def case_prod_beta split: sum.splits)

lemma fetchCommits_loop_counts:
  "sorted (map fst (fst (fetchCommits_loop Pair pages acc)))
   \<and> (\<forall>(c, t) \<in> set (fst (fetchCommits_loop Pair pages acc)). length acc \<le> c \<and> t = 1000)"
proof (induction pages arbitrary: acc)
  case Nil
  show ?case by simp
next
  case (Cons p pages)
  show ?case
  proof (cases p)
    case (Inl err)
    then show ?thesis by simp
  next
    case (Inr response)
    let ?acc = "acc @ json response"
    note IH = Cons.IH [of ?acc]
    from IH have "\<forall>(c, t) \<in> set (fst (fetchCommits_loop Pair pages ?acc)). length acc \<le> c"
      by fastforce
    with IH show ?thesis
      using Inr by (auto simp: Let_def case_prod_beta)
  qed
qed

lemma fetchReleases_loop_counts:
  "sorted (map fst (fst (fetchReleases_loop lmt Pair pages acc)))
   \<and> (\<forall>(c, t) \<in> set (fst (fetchReleases_loop lmt Pair pages acc)). length acc \<le> c \<and> t = lmt)"
proof (induction pages arbitrary: acc)
  case Nil
  show ?case by simp
next
  case (Cons p pages)
  show ?case
  proof (cases p)
    case (Inl err)
    then show ?thesis by simp
  next
    case (Inr response)
    let ?acc = "acc @ filter (\<lambda>release. \<not> draft release) (json response)"
    note IH = Cons.IH [of ?acc]
    from IH have "\<forall>(c, t) \<in> set (fst (fetchReleases_loop lmt Pair pages ?acc)). length acc \<le> c"
      by fastforce
    with IH show ?thesis
      using Inr by (auto simp: Let_def case_prod_beta)
  qed
qed

lemma fetchCommits_loop_bound:
  "list_all (pageSizeAtMost 100) pages \<Longrightarrow> 100 dvd length acc \<Longrightarrow>
   \<forall>(c, t) \<in> set (fst (fetchCommits_loop Pair pages acc)). c \<le> 1000"
proof (induction pages arbitrary: acc)
  case Nil
  show ?case by simp
next
  case (Cons p pages)
  show ?case
  proof (cases p)
    case (Inl err)
    then show ?thesis by simp
  next
    case (Inr response)
    show ?thesis
    proof (cases "length acc < 1000 \<and> ok response \<and> json response \<noteq> []")
      case False
      then show ?thesis using Inr by (auto simp: Let_def)
    next
      case True
      then have sz: "length (json response) \<le> 100"
        using Cons.prems(1) Inr by (simp add: pageSizeAtMost_def)
      from Cons.prems(2) obtain k where k: "length acc = 100 * k" by (auto simp: dvd_def)
      with True have le: "length acc \<le> 900" by simp
      show ?thesis
      proof (cases "length (json response) < 100")
        case short: True
        then show ?thesis using Inr True le by (simp add: Let_def)
      next
        case full: False
        with sz have "length (json response) = 100" by simp
        then have "100 dvd length (acc @ json response)"
          using Cons.prems(2) by simp
        from Cons.IH [OF _ this] Cons.prems(1)
        have "\<forall>(c, t) \<in> set (fst (fetchCommits_loop Pair pages (acc @ json response))). c \<le> 1000"
          by simp
        then show ?thesis
          using Inr True le sz by (auto simp: Let_def case_prod_beta)
      qed
    qed
  qed
qed

lemma fetchReleases_loop_bound:
  "list_all (pageSizeAtMost 100) pages \<Longrightarrow>
   \<forall>(c, t) \<in> set (fst (fetchReleases_loop lmt Pair pages acc)). c < lmt + 100"
proof (induction pages arbitrary: acc)
  case Nil
  show ?case by simp
next
  case (Cons p pages)
  show ?case
  proof (cases p)
    case (Inl err)
    then show ?thesis by simp
  next
    case (Inr response)
    let ?valid = "filter (\<lambda>release. \<not> draft release) (json response)"
    have IH: "\<forall>(c, t) \<in> set (fst (fetchReleases_loop lmt Pair pages (acc @ ?valid))). c < lmt + 100"
      using Cons.IH Cons.prems by simp
    show ?thesis
    proof (cases "length acc < lmt \<and> ok response \<and> json response \<noteq> []")
      case False
      then show ?thesis using Inr by (auto simp: Let_def)
    next
      case True
      then have "length (json response) \<le> 100"
        using Cons.prems Inr by (simp add: pageSizeAtMost_def)
      moreover have "length ?valid \<le> length (json response)" by simp
      ultimately have "length acc + length ?valid < lmt + 100" using True by linarith
      then show ?thesis
        using Inr True IH by (auto simp: Let_def case_prod_beta)
    qed
  qed
qed

lemma checkpointed_counts:
  assumes "sorted (map fst cs)" and "\<forall>(c, t) \<in> set cs. t = T \<and> P c"
    and mono: "\<And>c c'. c \<le> c' \<Longrightarrow> progress (f c T) \<le> progress (f c' T)"
    and bnd: "\<And>c. P c \<Longrightarrow> lo \<le> progress (f c T) \<and> progress (f c T) \<le> hi"
  shows "checkpointed lo hi (map (\<lambda>(c, t). f c t) cs)"
  using assms(1,2)
proof (induction cs)
  case Nil
  show ?case by (simp add: checkpointed_def)
next
  case (Cons x cs)
  then have IH: "checkpointed lo hi (map (\<lambda>(c, t). f c t) cs)" by simp
  obtain c t where x: "x = (c, t)" by (cases x)
  have t: "t = T" and Pc: "P c" using Cons.prems(2) x by auto
  have "progress (f c T) \<le> progress e" if "e \<in> set (map (\<lambda>(c, t). f c t) cs)" for e
  proof -
    from that obtain c' t' where m: "(c', t') \<in> set cs" "e = f c' t'" by auto
    with Cons.prems x have "c \<le> c'" "t' = T" by auto
    with m mono show ?thesis by simp
  qed
  with IH bnd [OF Pc] show ?case
    by (auto simp: checkpointed_def x t)
qed

lemma checkpointed_wrap:
  "checkpointed lo hi es \<Longrightarrow> lo \<le> hi \<Longrightarrow> checkpointed lo hi (emit s lo # es @ [emit s' hi])"
  by (auto simp: checkpointed_def sorted_append emit_def)

lemma commitsProgress_mono:
  "c \<le> c' \<Longrightarrow> progress (commitsProgress c 1000) \<le> progress (commitsProgress c' 1000)"
  by (simp add: commitsProgress_def emit_def Math_floor_def floor_mono)

lemma commitsProgress_bounds:
  "c \<le> 1000 \<Longrightarrow> 40 \<le> progress (commitsProgress c 1000) \<and> progress (commitsProgress c 1000) \<le> 55"
proof -
  assume "c \<le> 1000"
  then have "real c / 1000 * 15 < 16" by simp
  then have "\<lfloor>real c / 1000 * 15\<rfloor> < 16" by (simp add: floor_less_iff)
  then have "\<lfloor>real c / 1000 * 15\<rfloor> \<le> 15" by simp
  moreover have "0 \<le> \<lfloor>real c / 1000 * 15\<rfloor>" by simp
  ultimately show ?thesis
    by (simp add: commitsProgress_def emit_def Math_floor_def)
qed

lemma releasesProgress_mono:
  "c \<le> c' \<Longrightarrow> progress (releasesProgress c 1000) \<le> progress (releasesProgress c' 1000)"
  by (simp add: releasesProgress_def emit_def Math_floor_def floor_mono)

lemma releasesProgress_bounds:
  "c < 1100 \<Longrightarrow> 55 \<le> progress (releasesProgress c 1000) \<and> progress (releasesProgress c 1000) \<le> 65"
proof -
  assume "c < 1100"
  then have "real c / 1000 * 10 < 11" by simp
  then have "\<lfloor>real c / 1000 * 10\<rfloor> < 11" by (simp add: floor_less_iff)
  then have "\<lfloor>real c / 1000 * 10\<rfloor> \<le> 10" by simp
  moreover have "0 \<le> \<lfloor>real c / 1000 * 10\<rfloor>" by simp
  ultimately show ?thesis
    by (simp add: releasesProgress_def emit_def Math_floor_def)
qed

lemma commitsStep_events:
  "fst (commitsStep net) =
     emit ''commits'' 40 # fst (fetchCommits commitsProgress (commitPages net)) @ [emit ''commits'' 55]"
  by (simp add: commitsStep_def case_prod_beta split: sum.splits)

lemma releasesStep_events:
  "fst (releasesStep net) =
     emit ''releases'' 55 # fst (fetchReleases 1000 releasesProgress (releasePages net))
       @ [emit ''releases'' 65]"
  by (simp add: releasesStep_def case_prod_beta split: sum.splits)

lemma commitsStep_checkpointed:
  assumes "list_all (pageSizeAtMost 100) (commitPages net)"
  shows "checkpointed 40 55 (fst (commitsStep net))"
proof -
  let ?cs = "fst (fetchCommits_loop Pair (commitPages net) [])"
  have "sorted (map fst ?cs)" and "\<forall>(c, t) \<in> set ?cs. t = 1000 \<and> c \<le> 1000"
    using fetchCommits_loop_counts [of "commitPages net" "[]"]
      fetchCommits_loop_bound [OF assms, of "[]"]
    by auto
  then have "checkpointed 40 55 (map (\<lambda>(c, t). commitsProgress c t) ?cs)"
    by (rule checkpointed_counts) (simp_all add: commitsProgress_mono commitsProgress_bounds)
  then have "checkpointed 40 55 (fst (fetchCommits commitsProgress (commitPages net)))"
    by (simp add: fetchCommits_def fetchCommits_loop_param [of commitsProgress])
  then show ?thesis
    unfolding commitsStep_events by (rule checkpointed_wrap) simp
qed

lemma releasesStep_checkpointed:
  assumes "list_all (pageSizeAtMost 100) (releasePages net)"
  shows "checkpointed 55 65 (fst (releasesStep net))"
proof -
  let ?cs = "fst (fetchReleases_loop 1000 Pair (releasePages net) [])"
  have "sorted (map fst ?cs)" and "\<forall>(c, t) \<in> set ?cs. t = 1000 \<and> c < 1100"
    using fetchReleases_loop_counts [of 1000 "releasePages net" "[]"]
      fetchReleases_loop_bound [OF assms, of 1000 "[]"]
    by auto
  then have "checkpointed 55 65 (map (\<lambda>(c, t). releasesProgress c t) ?cs)"
    by (rule checkpointed_counts) (simp_all add: releasesProgress_mono releasesProgress_bounds)
  then have "checkpointed 55 65 (fst (fetchReleases 1000 releasesProgress (releasePages net)))"
    by (simp add: fetchReleases_def fetchReleases_loop_param [of 1000 releasesProgress])
  then show ?thesis
    unfolding releasesStep_events by (rule checkpointed_wrap) simp
qed

end
